theory Spec2Isabelle
  imports Complex_Main "HOL-Library.Multiset"
begin

section \<open>Go values\<close>

subsection \<open>float64\<close>

text \<open>
  A Go \<open>float64\<close> is modelled as a real number or one of the IEEE-754 special values.
  Arithmetic on finite values is exact: rounding and overflow to an infinity are not
  modelled. The sign of zero is not modelled either; a zero divisor counts as \<open>+0\<close>
  (the zero divisors the program can produce are \<open>float64(len(f.trees))\<close> and the
  literal \<open>0\<close> returned by \<open>averagePathLength\<close>, both \<open>+0\<close>).
\<close>

datatype float64 = Fin real | PInf | NInf | NaN

fun fneg :: "float64 \<Rightarrow> float64" where
  "fneg (Fin a) = Fin (- a)"
| "fneg PInf = NInf"
| "fneg NInf = PInf"
| "fneg NaN = NaN"

text \<open>The infinity with the sign of \<open>a\<close>; \<open>NaN\<close> for \<open>a = 0\<close> (\<open>0 * Inf\<close>, \<open>0 / 0\<close>).\<close>

definition finf :: "real \<Rightarrow> float64" where
  "finf a = (if a = 0 then NaN else if 0 < a then PInf else NInf)"

fun fadd :: "float64 \<Rightarrow> float64 \<Rightarrow> float64" where
  "fadd NaN _ = NaN"
| "fadd _ NaN = NaN"
| "fadd (Fin a) (Fin b) = Fin (a + b)"
| "fadd PInf NInf = NaN"
| "fadd NInf PInf = NaN"
| "fadd PInf _ = PInf"
| "fadd _ PInf = PInf"
| "fadd NInf _ = NInf"
| "fadd _ NInf = NInf"

definition fsub :: "float64 \<Rightarrow> float64 \<Rightarrow> float64" where
  "fsub a b = fadd a (fneg b)"

fun fmul :: "float64 \<Rightarrow> float64 \<Rightarrow> float64" where
  "fmul NaN _ = NaN"
| "fmul _ NaN = NaN"
| "fmul (Fin a) (Fin b) = Fin (a * b)"
| "fmul (Fin a) PInf = finf a"
| "fmul (Fin a) NInf = finf (- a)"
| "fmul PInf (Fin b) = finf b"
| "fmul NInf (Fin b) = finf (- b)"
| "fmul PInf PInf = PInf"
| "fmul PInf NInf = NInf"
| "fmul NInf PInf = NInf"
| "fmul NInf NInf = PInf"

fun fdiv :: "float64 \<Rightarrow> float64 \<Rightarrow> float64" where
  "fdiv NaN _ = NaN"
| "fdiv _ NaN = NaN"
| "fdiv (Fin a) (Fin b) = (if b = 0 then finf a else Fin (a / b))"
| "fdiv (Fin a) PInf = Fin 0"
| "fdiv (Fin a) NInf = Fin 0"
| "fdiv PInf (Fin b) = (if b < 0 then NInf else PInf)"
| "fdiv NInf (Fin b) = (if b < 0 then PInf else NInf)"
| "fdiv PInf PInf = NaN"
| "fdiv PInf NInf = NaN"
| "fdiv NInf PInf = NaN"
| "fdiv NInf NInf = NaN"

text \<open>The comparisons \<open><\<close>, \<open>==\<close>, \<open><=\<close>, \<open>>\<close>, \<open>>=\<close>: each is false when an operand is NaN.\<close>

fun flt :: "float64 \<Rightarrow> float64 \<Rightarrow> bool" where
  "flt NaN _ = False"
| "flt _ NaN = False"
| "flt (Fin a) (Fin b) = (a < b)"
| "flt _ NInf = False"
| "flt NInf _ = True"
| "flt PInf _ = False"
| "flt _ PInf = True"

definition feq :: "float64 \<Rightarrow> float64 \<Rightarrow> bool" where
  "feq a b = (a \<noteq> NaN \<and> a = b)"

definition fle :: "float64 \<Rightarrow> float64 \<Rightarrow> bool" where
  "fle a b = (flt a b \<or> feq a b)"

definition fgt :: "float64 \<Rightarrow> float64 \<Rightarrow> bool" where
  "fgt a b = flt b a"

definition fge :: "float64 \<Rightarrow> float64 \<Rightarrow> bool" where
  "fge a b = fle b a"

text \<open>\<open>math.Log\<close>, \<open>math.Log2\<close>, \<open>math.Ceil\<close> and \<open>math.Pow(2, y)\<close> with their special cases.\<close>

fun math_Log :: "float64 \<Rightarrow> float64" where
  "math_Log (Fin x) = (if x < 0 then NaN else if x = 0 then NInf else Fin (ln x))"
| "math_Log PInf = PInf"
| "math_Log NInf = NaN"
| "math_Log NaN = NaN"

fun math_Log2 :: "float64 \<Rightarrow> float64" where
  "math_Log2 (Fin x) = (if x < 0 then NaN else if x = 0 then NInf else Fin (log 2 x))"
| "math_Log2 PInf = PInf"
| "math_Log2 NInf = NaN"
| "math_Log2 NaN = NaN"

fun math_Ceil :: "float64 \<Rightarrow> float64" where
  "math_Ceil (Fin x) = Fin (of_int \<lceil>x\<rceil>)"
| "math_Ceil PInf = PInf"
| "math_Ceil NInf = NInf"
| "math_Ceil NaN = NaN"

fun math_Pow2 :: "float64 \<Rightarrow> float64" where
  "math_Pow2 (Fin y) = Fin (2 powr y)"
| "math_Pow2 PInf = PInf"
| "math_Pow2 NInf = Fin 0"
| "math_Pow2 NaN = NaN"

subsection \<open>Conversions between int and float64\<close>

text \<open>
  Go's \<open>int\<close> is modelled as an unbounded integer (the program's counters never come
  near 64 bits). \<open>float64(i)\<close> is exact. \<open>int(x)\<close> truncates a finite \<open>x\<close> toward zero; for
  a NaN or an infinity the Go specification leaves the result to the implementation,
  and the model takes what amd64 yields, the least 64-bit integer.
\<close>

definition float64_of_int :: "int \<Rightarrow> float64" where
  "float64_of_int i = Fin (of_int i)"

definition min_int64 :: int where
  "min_int64 = - (2 ^ 63)"

definition truncToZero :: "real \<Rightarrow> int" where
  "truncToZero x = (if 0 \<le> x then \<lfloor>x\<rfloor> else \<lceil>x\<rceil>)"

fun int_of_float64 :: "float64 \<Rightarrow> int" where
  "int_of_float64 (Fin x) = truncToZero x"
| "int_of_float64 PInf = min_int64"
| "int_of_float64 NInf = min_int64"
| "int_of_float64 NaN = min_int64"

section \<open>The forest\<close>

text \<open>
  The error kinds of the library. \<open>Fit\<close> returns \<open>errors.New("empty training data")\<close>
  (EmptyData); \<open>Predict\<close>, \<open>PredictOne\<close>, \<open>PredictStream\<close> and \<open>Save\<close> return
  \<open>errors.New("model not trained")\<close> (NotTrained); \<open>Save\<close> and \<open>Load\<close> pass on the error
  of the gob encoder or decoder. \<open>Panic\<close> stands for a run-time panic of the Go program
  (index out of range, nil dereference, \<open>make\<close> with a negative length, \<open>Intn\<close> with a
  non-positive argument): it is not an \<open>error\<close> value and unwinds the caller.
\<close>

datatype error = EmptyData | NotTrained | SerializationFailed | DeserializationFailed | Panic

text \<open>
  \<open>type node struct { splitFeature int; splitValue float64; left, right *node; size int }\<close>.
  A nil pointer is \<open>None\<close>.
\<close>

datatype node =
  Node (splitFeature: int) (splitValue: float64) (left: "node option") (right: "node option")
       (node_size: int)

datatype iTree = ITree (root: "node option")

text \<open>
  \<open>type IsolationForest struct\<close>, without the lock \<open>mu\<close> (every operation is modelled as
  running alone). \<open>rng\<close> is the state of the generator behind the \<open>*rand.Rand\<close>. The
  elements of \<open>trees\<close> are the trees themselves: \<open>Fit\<close> fills every slot of the slice
  before it returns, so no element is a nil pointer.
\<close>

record 'r IsolationForest =
  nTrees :: int
  sampleSize :: int
  contamination :: float64
  threshold :: float64
  maxDepth :: int
  rng :: 'r
  trees :: "iTree list"
  trained :: bool
  avgPathLength :: float64

subsection \<open>Scoring\<close>

definition averagePathLength :: "float64 \<Rightarrow> float64" where
  "averagePathLength n =
     (if fle n (Fin 1) then Fin 0
      else fsub (fmul (Fin 2) (fadd (math_Log (fsub n (Fin 1))) (Fin 0.5772156649)))
                (fdiv (fmul (Fin 2) (fsub n (Fin 1))) n))"

fun pathLength :: "float64 list \<Rightarrow> node option \<Rightarrow> int \<Rightarrow> error + float64" where
  "pathLength sample None currentDepth = Inl Panic"
| "pathLength sample (Some (Node sf sv l r sz)) currentDepth =
     (if l = None \<and> r = None
      then Inr (fadd (float64_of_int currentDepth) (averagePathLength (float64_of_int sz)))
      else if sf < 0 \<or> int (length sample) \<le> sf then Inl Panic
      else if flt (sample ! nat sf) sv then pathLength sample l (currentDepth + 1)
      else pathLength sample r (currentDepth + 1))"

text \<open>The loop of \<open>predictOne\<close> over \<open>f.trees\<close>, adding each path length to \<open>totalPath\<close>.\<close>

fun totalPathLoop :: "float64 list \<Rightarrow> iTree list \<Rightarrow> float64 \<Rightarrow> error + float64" where
  "totalPathLoop sample [] totalPath = Inr totalPath"
| "totalPathLoop sample (tree # rest) totalPath =
     (case pathLength sample (root tree) 0 of
        Inl e \<Rightarrow> Inl e
      | Inr p \<Rightarrow> totalPathLoop sample rest (fadd totalPath p))"

definition predictOne :: "'r IsolationForest \<Rightarrow> float64 list \<Rightarrow> error + float64" where
  "predictOne f sample =
     (case totalPathLoop sample (trees f) (Fin 0) of
        Inl e \<Rightarrow> Inl e
      | Inr totalPath \<Rightarrow>
          (let avgPath = fdiv totalPath (float64_of_int (int (length (trees f))))
           in Inr (math_Pow2 (fdiv (fneg avgPath) (avgPathLength f)))))"

fun predict :: "'r IsolationForest \<Rightarrow> float64 list list \<Rightarrow> error + float64 list" where
  "predict f [] = Inr []"
| "predict f (sample # rest) =
     (case predictOne f sample of
        Inl e \<Rightarrow> Inl e
      | Inr score \<Rightarrow>
          (case predict f rest of Inl e \<Rightarrow> Inl e | Inr scores \<Rightarrow> Inr (score # scores)))"

definition Predict :: "'r IsolationForest \<Rightarrow> float64 list list \<Rightarrow> error + float64 list" where
  "Predict f data = (if \<not> trained f then Inl NotTrained else predict f data)"

definition PredictOne :: "'r IsolationForest \<Rightarrow> float64 list \<Rightarrow> error + float64" where
  "PredictOne f sample = (if \<not> trained f then Inl NotTrained else predictOne f sample)"

subsection \<open>The random source\<close>

text \<open>
  \<open>math/rand\<close> belongs to the Go library, so the generator is a parameter of the model:
  a state of type \<open>'r\<close> with the four operations the program uses. \<open>rand_New seed\<close> is
  \<open>rand.New(rand.NewSource(seed))\<close>; the other three return the value drawn and the
  next state. \<open>Float64\<close> always returns a finite number, hence the type \<open>real\<close>.
  (\<open>Intn\<close> panics on a non-positive argument; the caller \<open>buildNode\<close> models that.)
\<close>

record 'r rand_source =
  rand_New :: "int \<Rightarrow> 'r"
  rand_Perm :: "'r \<Rightarrow> nat \<Rightarrow> nat list \<times> 'r"
  rand_Intn :: "'r \<Rightarrow> nat \<Rightarrow> nat \<times> 'r"
  rand_Float64 :: "'r \<Rightarrow> real \<times> 'r"

subsection \<open>Construction\<close>

datatype Option = WithTrees int | WithSampleSize int | WithContamination float64 | WithSeed int

fun applyOption :: "'r rand_source \<Rightarrow> Option \<Rightarrow> 'r IsolationForest \<Rightarrow> 'r IsolationForest" where
  "applyOption R (WithTrees n) f = f\<lparr>nTrees := n\<rparr>"
| "applyOption R (WithSampleSize n) f = f\<lparr>sampleSize := n\<rparr>"
| "applyOption R (WithContamination c) f = f\<lparr>contamination := c\<rparr>"
| "applyOption R (WithSeed seed) f = f\<lparr>rng := rand_New R seed\<rparr>"

text \<open>\<open>int(math.Ceil(math.Log2(float64(sampleSize))))\<close>, as \<open>New\<close> and \<open>Load\<close> compute it.\<close>

definition depthLimit :: "int \<Rightarrow> int" where
  "depthLimit s = int_of_float64 (math_Ceil (math_Log2 (float64_of_int s)))"

definition New :: "'r rand_source \<Rightarrow> Option list \<Rightarrow> 'r IsolationForest" where
  "New R opts =
     (let f0 = \<lparr>nTrees = 100, sampleSize = 256, contamination = Fin 0.1, threshold = Fin 0.5,
                maxDepth = 0, rng = rand_New R 42, trees = [], trained = False,
                avgPathLength = Fin 0\<rparr>;
          f = foldl (\<lambda>f opt. applyOption R opt f) f0 opts
      in f\<lparr>maxDepth := depthLimit (sampleSize f)\<rparr>)"

subsection \<open>Tree construction\<close>

text \<open>The loop of \<open>buildNode\<close> that finds \<open>minVal\<close> and \<open>maxVal\<close> over \<open>data[1:]\<close>.\<close>

fun minMaxLoop :: "float64 list \<Rightarrow> float64 \<times> float64 \<Rightarrow> float64 \<times> float64" where
  "minMaxLoop [] (minVal, maxVal) = (minVal, maxVal)"
| "minMaxLoop (v # vs) (minVal, maxVal) =
     minMaxLoop vs (if flt v minVal then v else minVal, if fgt v maxVal then v else maxVal)"

text \<open>
  \<open>buildNode\<close> with \<open>f.maxDepth\<close> and the state of \<open>f.rng\<close> passed in; it returns the node
  and the state of the generator after its draws. The left subtree is built before
  the right one (Go evaluates the calls in a composite literal left to right).
  \<open>Intn(nFeatures)\<close> panics for \<open>nFeatures \<le> 0\<close>, and \<open>row[feature]\<close> for a row that is
  too short.
\<close>

function buildNode ::
  "'r rand_source \<Rightarrow> int \<Rightarrow> float64 list list \<Rightarrow> int \<Rightarrow> int \<Rightarrow> 'r \<Rightarrow> error + (node \<times> 'r)" where
  "buildNode R md data nFeatures depth g =
     (let n = int (length data) in
      if md \<le> depth \<or> n \<le> 1 then Inr (Node 0 (Fin 0) None None n, g)
      else if nFeatures \<le> 0 then Inl Panic
      else
        (let (feature, g1) = rand_Intn R g (nat nFeatures) in
         if \<not> list_all (\<lambda>row. feature < length row) data then Inl Panic
         else
           (let (minVal, maxVal) =
                  minMaxLoop (map (\<lambda>row. row ! feature) (tl data))
                    (hd data ! feature, hd data ! feature) in
            if feq minVal maxVal then Inr (Node 0 (Fin 0) None None n, g1)
            else
              (let (u, g2) = rand_Float64 R g1;
                   splitValue = fadd minVal (fmul (Fin u) (fsub maxVal minVal));
                   leftData = filter (\<lambda>row. flt (row ! feature) splitValue) data;
                   rightData = filter (\<lambda>row. \<not> flt (row ! feature) splitValue) data
               in
                 (case buildNode R md leftData nFeatures (depth + 1) g2 of
                    Inl e \<Rightarrow> Inl e
                  | Inr (l, g3) \<Rightarrow>
                      (case buildNode R md rightData nFeatures (depth + 1) g3 of
                         Inl e \<Rightarrow> Inl e
                       | Inr (r, g4) \<Rightarrow>
                           Inr (Node (int feature) splitValue (Some l) (Some r) 0, g4)))))))"
  by pat_completeness auto
termination
  by (relation "measure (\<lambda>(R, md, data, nFeatures, depth, g). nat (md - depth))") auto

declare buildNode.simps [simp del]

definition buildTree ::
  "'r rand_source \<Rightarrow> int \<Rightarrow> float64 list list \<Rightarrow> int \<Rightarrow> int \<Rightarrow> 'r \<Rightarrow> error + (iTree \<times> 'r)" where
  "buildTree R md data nFeatures depth g =
     (case buildNode R md data nFeatures depth g of
        Inl e \<Rightarrow> Inl e
      | Inr (n, g') \<Rightarrow> Inr (ITree (Some n), g'))"

subsection \<open>Percentile\<close>

text \<open>
  The inner loop of the insertion sort: \<open>for j := i; j > 0 && sorted[j] < sorted[j-1]; j--\<close>
  swaps \<open>sorted[j]\<close> and \<open>sorted[j-1]\<close>. The outer loop runs \<open>i\<close> from 1 to \<open>len(sorted) - 1\<close>.
\<close>

fun insertLoop :: "float64 list \<Rightarrow> nat \<Rightarrow> float64 list" where
  "insertLoop arr 0 = arr"
| "insertLoop arr (Suc j) =
     (if flt (arr ! Suc j) (arr ! j)
      then insertLoop (arr[Suc j := arr ! j, j := arr ! Suc j]) j
      else arr)"

definition insertionSort :: "float64 list \<Rightarrow> float64 list" where
  "insertionSort data = foldl insertLoop data [1 ..< length data]"

definition percentile :: "float64 list \<Rightarrow> float64 \<Rightarrow> error + float64" where
  "percentile data p =
     (if data = [] then Inr (Fin 0)
      else
        (let arr = insertionSort data;
             idx = int_of_float64
                     (fdiv (fmul (float64_of_int (int (length arr) - 1)) p) (Fin 100))
         in if idx < 0 \<or> int (length arr) \<le> idx then Inl Panic
            else Inr (arr ! nat idx)))"

subsection \<open>Fit\<close>

text \<open>
  The loop of \<open>Fit\<close> over the trees, for the \<open>k\<close> trees still to build; \<open>psi\<close> is
  the local \<open>sampleSize\<close> of \<open>Fit\<close>, the configured one clamped to the number of rows.
  \<open>f.rng.Perm(nSamples)[:sampleSize]\<close> panics when \<open>sampleSize\<close> is negative (or beyond the
  slice), \<open>data[idx]\<close> when \<open>idx\<close> is out of range.
\<close>

fun fitLoop ::
  "'r rand_source \<Rightarrow> int \<Rightarrow> float64 list list \<Rightarrow> int \<Rightarrow> int \<Rightarrow> nat \<Rightarrow> 'r
     \<Rightarrow> error + (iTree list \<times> 'r)" where
  "fitLoop R md data nFeatures psi 0 g = Inr ([], g)"
| "fitLoop R md data nFeatures psi (Suc k) g =
     (let (perm, g1) = rand_Perm R g (length data) in
      if psi < 0 \<or> int (length perm) < psi then Inl Panic
      else
        (let indices = take (nat psi) perm in
         if \<not> list_all (\<lambda>idx. idx < length data) indices then Inl Panic
         else
           (case buildTree R md (map (\<lambda>idx. data ! idx) indices) nFeatures 0 g1 of
              Inl e \<Rightarrow> Inl e
            | Inr (tree, g2) \<Rightarrow>
                (case fitLoop R md data nFeatures psi k g2 of
                   Inl e \<Rightarrow> Inl e
                 | Inr (rest, g3) \<Rightarrow> Inr (tree # rest, g3)))))"

definition Fit ::
  "'r rand_source \<Rightarrow> 'r IsolationForest \<Rightarrow> float64 list list \<Rightarrow> error + 'r IsolationForest" where
  "Fit R f data =
     (if data = [] then Inl EmptyData
      else
        (let nSamples = int (length data);
             nFeatures = int (length (hd data));
             psi = (if nSamples < sampleSize f then nSamples else sampleSize f)
         in if nTrees f < 0 then Inl Panic
            else
              (case fitLoop R (maxDepth f) data nFeatures psi (nat (nTrees f)) (rng f) of
                 Inl e \<Rightarrow> Inl e
               | Inr (ts, g) \<Rightarrow>
                   (let f1 = f\<lparr>rng := g, trees := ts, trained := True,
                                avgPathLength := averagePathLength (float64_of_int psi)\<rparr>
                    in if fgt (contamination f1) (Fin 0)
                       then
                         (case predict f1 data of
                            Inl e \<Rightarrow> Inl e
                          | Inr scores \<Rightarrow>
                              (case percentile scores
                                      (fmul (Fin 100) (fsub (Fin 1) (contamination f1))) of
                                 Inl e \<Rightarrow> Inl e
                               | Inr t \<Rightarrow> Inr (f1\<lparr>threshold := t\<rparr>)))
                       else Inr f1))))"

subsection \<open>Threshold\<close>

definition Threshold :: "'r IsolationForest \<Rightarrow> float64" where
  "Threshold f = threshold f"

definition SetThreshold :: "'r IsolationForest \<Rightarrow> float64 \<Rightarrow> 'r IsolationForest" where
  "SetThreshold f t = f\<lparr>threshold := t\<rparr>"

subsection \<open>PredictStream\<close>

text \<open>
  \<open>detectors.Score\<close>; \<open>PredictStream\<close> never sets \<open>Metadata\<close>, which is left out.
\<close>

record Score =
  Value :: float64
  IsAnomaly :: bool
  Features :: "float64 list"

text \<open>
  The loop of \<open>PredictStream\<close> for a context that is never cancelled and a consumer that
  takes every record: the input channel is the list of the samples delivered before it
  is closed, the output channel the list of the records sent so far. An \<open>error\<close> of
  \<open>PredictOne\<close> skips the sample (\<open>continue\<close>); a panic unwinds the loop.
\<close>

fun streamLoop :: "'r IsolationForest \<Rightarrow> float64 list list \<Rightarrow> Score list \<Rightarrow> error option \<times> Score list" where
  "streamLoop f [] out = (None, out)"
| "streamLoop f (sample # rest) out =
     (case PredictOne f sample of
        Inl e \<Rightarrow> (if e = Panic then (Some Panic, out) else streamLoop f rest out)
      | Inr score \<Rightarrow>
          streamLoop f rest
            (out @ [\<lparr>Value = score, IsAnomaly = fge score (threshold f), Features = sample\<rparr>]))"

definition PredictStream :: "'r IsolationForest \<Rightarrow> float64 list list \<Rightarrow> error option \<times> Score list" where
  "PredictStream f input = (if \<not> trained f then (Some NotTrained, []) else streamLoop f input [])"

subsection \<open>Save and Load\<close>

text \<open>
  \<open>encoding/gob\<close> belongs to the Go library, so the encoder and the decoder are
  parameters of the model: \<open>'b\<close> is the buffer, an \<open>Encode\<close> appends to it or fails, a
  \<open>Decode\<close> returns the value read and the rest of the buffer or fails, each at the
  three types the program sends (\<open>int\<close>, \<open>float64\<close>, \<open>[]*iTree\<close>).
\<close>

record 'b codec =
  newBuffer :: 'b
  EncodeInt :: "int \<Rightarrow> 'b \<Rightarrow> error + 'b"
  EncodeFloat64 :: "float64 \<Rightarrow> 'b \<Rightarrow> error + 'b"
  EncodeTrees :: "iTree list \<Rightarrow> 'b \<Rightarrow> error + 'b"
  DecodeInt :: "'b \<Rightarrow> error + (int \<times> 'b)"
  DecodeFloat64 :: "'b \<Rightarrow> error + (float64 \<times> 'b)"
  DecodeTrees :: "'b \<Rightarrow> error + (iTree list \<times> 'b)"

definition Save :: "'b codec \<Rightarrow> 'r IsolationForest \<Rightarrow> error + 'b" where
  "Save G f =
     (if \<not> trained f then Inl NotTrained
      else
        (case EncodeInt G (nTrees f) (newBuffer G) of Inl e \<Rightarrow> Inl e | Inr b1 \<Rightarrow>
        (case EncodeInt G (sampleSize f) b1 of Inl e \<Rightarrow> Inl e | Inr b2 \<Rightarrow>
        (case EncodeFloat64 G (contamination f) b2 of Inl e \<Rightarrow> Inl e | Inr b3 \<Rightarrow>
        (case EncodeFloat64 G (threshold f) b3 of Inl e \<Rightarrow> Inl e | Inr b4 \<Rightarrow>
        (case EncodeFloat64 G (avgPathLength f) b4 of Inl e \<Rightarrow> Inl e | Inr b5 \<Rightarrow>
        (case EncodeTrees G (trees f) b5 of Inl e \<Rightarrow> Inl e | Inr b6 \<Rightarrow> Inr b6)))))))"

text \<open>
  \<open>Load\<close> decodes into the fields of the receiver one after the other, so the result is
  the forest as the call leaves it together with the error, if any.
\<close>

definition Load :: "'b codec \<Rightarrow> 'r IsolationForest \<Rightarrow> 'b \<Rightarrow> 'r IsolationForest \<times> error option" where
  "Load G f data =
     (case DecodeInt G data of Inl e \<Rightarrow> (f, Some e) | Inr (v1, b1) \<Rightarrow>
        (let f1 = f\<lparr>nTrees := v1\<rparr> in
     (case DecodeInt G b1 of Inl e \<Rightarrow> (f1, Some e) | Inr (v2, b2) \<Rightarrow>
        (let f2 = f1\<lparr>sampleSize := v2\<rparr> in
     (case DecodeFloat64 G b2 of Inl e \<Rightarrow> (f2, Some e) | Inr (v3, b3) \<Rightarrow>
        (let f3 = f2\<lparr>contamination := v3\<rparr> in
     (case DecodeFloat64 G b3 of Inl e \<Rightarrow> (f3, Some e) | Inr (v4, b4) \<Rightarrow>
        (let f4 = f3\<lparr>threshold := v4\<rparr> in
     (case DecodeFloat64 G b4 of Inl e \<Rightarrow> (f4, Some e) | Inr (v5, b5) \<Rightarrow>
        (let f5 = f4\<lparr>avgPathLength := v5\<rparr> in
     (case DecodeTrees G b5 of Inl e \<Rightarrow> (f5, Some e) | Inr (v6, b6) \<Rightarrow>
        (let f6 = f5\<lparr>trees := v6\<rparr> in
         (f6\<lparr>maxDepth := depthLimit (sampleSize f6), trained := True\<rparr>, None)))))))))))))"

subsection \<open>The gob encoding of the program's types\<close>

text \<open>
  \<open>encoding/gob\<close> transmits the exported fields of a struct only, and its encoder
  refuses a struct type that has fields but no exported one
  (\<open>gob: type iforest.iTree has no exported fields\<close>). A field is exported when its name
  starts with an upper-case letter. The fields below are those the source declares for
  \<open>iTree\<close> and \<open>node\<close>.
\<close>

definition isExported :: "string \<Rightarrow> bool" where
  "isExported name =
     (case name of [] \<Rightarrow> False | c # _ \<Rightarrow> (65::nat) \<le> of_char c \<and> of_char c \<le> (90::nat))"

definition iTree_fields :: "string list" where
  "iTree_fields = [''root'']"

definition node_fields :: "string list" where
  "node_fields = [''splitFeature'', ''splitValue'', ''left'', ''right'', ''size'']"

definition gobEncodable :: "string list \<Rightarrow> bool" where
  "gobEncodable names = (names = [] \<or> list_ex isExported names)"

text \<open>
  A gob stream as the sequence of the values sent. An \<open>int\<close> and a \<open>float64\<close> are always
  sent; a \<open>[]*iTree\<close> is sent when gob accepts the type \<open>iTree\<close>.
\<close>

datatype gob_msg = GobInt int | GobFloat64 float64 | GobTrees "iTree list"

fun gobDecodeInt :: "gob_msg list \<Rightarrow> error + (int \<times> gob_msg list)" where
  "gobDecodeInt (GobInt v # rest) = Inr (v, rest)"
| "gobDecodeInt _ = Inl DeserializationFailed"

fun gobDecodeFloat64 :: "gob_msg list \<Rightarrow> error + (float64 \<times> gob_msg list)" where
  "gobDecodeFloat64 (GobFloat64 v # rest) = Inr (v, rest)"
| "gobDecodeFloat64 _ = Inl DeserializationFailed"

fun gobDecodeTrees :: "gob_msg list \<Rightarrow> error + (iTree list \<times> gob_msg list)" where
  "gobDecodeTrees (GobTrees v # rest) = Inr (v, rest)"
| "gobDecodeTrees _ = Inl DeserializationFailed"

definition gob :: "gob_msg list codec" where
  "gob = \<lparr>newBuffer = [],
          EncodeInt = (\<lambda>v buf. Inr (buf @ [GobInt v])),
          EncodeFloat64 = (\<lambda>v buf. Inr (buf @ [GobFloat64 v])),
          EncodeTrees = (\<lambda>v buf. if gobEncodable iTree_fields then Inr (buf @ [GobTrees v])
                                  else Inl SerializationFailed),
          DecodeInt = gobDecodeInt,
          DecodeFloat64 = gobDecodeFloat64,
          DecodeTrees = gobDecodeTrees\<rparr>"

subsection \<open>A generator to run the model on\<close>

text \<open>
  A counter as random source, for the evaluated examples: \<open>Perm\<close> is the identity
  permutation, \<open>Intn n\<close> the counter modulo \<open>n\<close>, \<open>Float64\<close> one half; every draw advances
  the counter. The theorems that quantify over the source hold for any generator.
\<close>

definition counter_rand :: "nat rand_source" where
  "counter_rand = \<lparr>rand_New = (\<lambda>seed. nat \<bar>seed\<bar>),
                   rand_Perm = (\<lambda>g n. ([0 ..< n], Suc g)),
                   rand_Intn = (\<lambda>g n. (g mod n, Suc g)),
                   rand_Float64 = (\<lambda>g. (1 / 2, Suc g))\<rparr>"

text \<open>
  The forest that \<open>Fit\<close> builds from \<open>New(WithTrees(1), WithSampleSize(2))\<close> on the two
  rows \<open>[0]\<close> and \<open>[1]\<close> with the counter as random source: one tree that splits feature
  0 at 1/2 into two leaves of size 1 (see \<open>fit_example\<close> below).
\<close>

definition example_data :: "float64 list list" where
  "example_data = [[Fin 0], [Fin 1]]"

definition example_forest :: "nat IsolationForest" where
  "example_forest =
     \<lparr>nTrees = 1, sampleSize = 2, contamination = Fin (1 / 10),
      threshold = Fin (2 powr - (5000000000 / 772156649)), maxDepth = 1, rng = 45,
      trees = [ITree (Some (Node 0 (Fin (1 / 2)) (Some (Node 0 (Fin 0) None None 1))
                                  (Some (Node 0 (Fin 0) None None 1)) 0))],
      trained = True, avgPathLength = Fin (772156649 / 5000000000)\<rparr>"

text \<open>
  The forest that \<open>Fit\<close> builds from \<open>New(WithTrees(10), WithSeed(42))\<close> on the single row
  \<open>[1, 2, 3]\<close> (the "single sample" case of the repository's \<open>TestFit\<close>) with the counter
  as random source: ten leaves of size 1 (see \<open>fit_single_row\<close> below).
\<close>

definition single_row_forest :: "nat IsolationForest" where
  "single_row_forest =
     \<lparr>nTrees = 10, sampleSize = 256, contamination = Fin (1 / 10), threshold = NaN,
      maxDepth = 8, rng = 52, trees = replicate 10 (ITree (Some (Node 0 (Fin 0) None None 1))),
      trained = True, avgPathLength = Fin 0\<rparr>"



text \<open>
  The forest that \<open>Fit\<close> builds from \<open>New(WithTrees(0))\<close> on the row \<open>[1, 2]\<close> (see
  \<open>fit_zero_trees\<close> below).
\<close>

definition zero_trees_forest :: "nat IsolationForest" where
  "zero_trees_forest =
     \<lparr>nTrees = 0, sampleSize = 256, contamination = Fin (1 / 10), threshold = NaN,
      maxDepth = 8, rng = 42, trees = [], trained = True, avgPathLength = Fin 0\<rparr>"





section \<open>Histories\<close>

text \<open>
  The forests that have never completed a successful \<open>Fit\<close> or \<open>Load\<close>: a forest as \<open>New\<close>
  returns it, after any number of failed calls of \<open>Load\<close> and calls of \<open>SetThreshold\<close>.
  (A \<open>Fit\<close> that fails with EmptyData returns before it touches the forest, and
  \<open>Predict\<close>, \<open>PredictOne\<close>, \<open>PredictStream\<close>, \<open>Save\<close> and \<open>Threshold\<close> only read it. A call
  that panics unwinds the program and is not a step of a history.)
\<close>

inductive neverTrained :: "'r rand_source \<Rightarrow> 'b codec \<Rightarrow> 'r IsolationForest \<Rightarrow> bool"
  for R :: "'r rand_source" and G :: "'b codec" where
  constructed: "neverTrained R G (New R opts)"
| load_failed: "neverTrained R G f \<Longrightarrow> Load G f blob = (f', Some e) \<Longrightarrow> neverTrained R G f'"
| threshold_set: "neverTrained R G f \<Longrightarrow> neverTrained R G (SetThreshold f t)"

section \<open>Properties\<close>

subsection \<open>Evaluation\<close>

lemma depthLimit_2: "depthLimit 2 = 1"
  by (simp add: depthLimit_def float64_of_int_def truncToZero_def min_int64_def)

lemma fit_example:
  "Fit counter_rand (New counter_rand [WithTrees 1, WithSampleSize 2]) example_data
     = Inr example_forest"
  by (simp add: Fit_def New_def Let_def depthLimit_2 counter_rand_def buildTree_def
      buildNode.simps feq_def fgt_def fsub_def predictOne_def averagePathLength_def
      float64_of_int_def fle_def percentile_def insertionSort_def truncToZero_def
      min_int64_def example_data_def example_forest_def)

lemma predictOne_example:
  "predictOne example_forest [Fin 0] = Inr (Fin (2 powr - (5000000000 / 772156649)))"
  "predictOne example_forest [Fin 1] = Inr (Fin (2 powr - (5000000000 / 772156649)))"
  by (simp_all add: predictOne_def example_forest_def averagePathLength_def float64_of_int_def
      fle_def feq_def)

lemma trained_example: "trained example_forest"
  by (simp add: example_forest_def)

lemma PredictOne_example:
  "PredictOne example_forest [Fin 0] = Inr (Fin (2 powr - (5000000000 / 772156649)))"
  "PredictOne example_forest [Fin 1] = Inr (Fin (2 powr - (5000000000 / 772156649)))"
  by (simp_all add: PredictOne_def trained_example predictOne_example)

lemma list2: "length xs = 2 \<Longrightarrow> xs = [xs ! 0, xs ! 1]"
  by (cases xs; simp; cases "tl xs"; auto)

lemma depthLimit_ceiling_log:
  "1 \<le> s \<Longrightarrow> depthLimit s = \<lceil>log 2 (real_of_int s)\<rceil>"
  by (simp add: depthLimit_def float64_of_int_def truncToZero_def)

lemma depthLimit_256: "depthLimit 256 = 8"
proof -
  have "log 2 (real_of_int 256) = log 2 (2 ^ 8)" by simp
  also have "\<dots> = 8" by (subst log_pow_cancel) simp_all
  finally show ?thesis by (simp add: depthLimit_ceiling_log)
qed

lemma fit_single_row:
  "Fit counter_rand (New counter_rand [WithTrees 10, WithSeed 42]) [[Fin 1, Fin 2, Fin 3]]
     = Inr single_row_forest"
  by (simp add: Fit_def New_def Let_def depthLimit_256 counter_rand_def buildTree_def
      buildNode.simps feq_def fgt_def fsub_def predictOne_def averagePathLength_def
      float64_of_int_def fle_def percentile_def insertionSort_def truncToZero_def
      min_int64_def finf_def eval_nat_numeral single_row_forest_def)

lemma fit_zero_trees:
  "Fit counter_rand (New counter_rand [WithTrees 0]) [[Fin 1, Fin 2]] = Inr zero_trees_forest"
  by (simp add: Fit_def New_def Let_def depthLimit_256 counter_rand_def fgt_def fsub_def
      predictOne_def averagePathLength_def float64_of_int_def fle_def feq_def percentile_def
      insertionSort_def truncToZero_def finf_def zero_trees_forest_def)


subsection \<open>Errors are panics or NotTrained\<close>





subsection \<open>Construction\<close>












subsection \<open>The range of the score\<close>

text \<open>
  C2. Every score of a trained forest lies in [0, 1], also when the effective sample
  size is 1. The code does not keep that: fitted on the single row \<open>[1, 2, 3]\<close>, every
  tree is a leaf of size 1, the average path length is 0 and so is the normalization
  constant \<open>c(1)\<close>, and \<open>PredictOne\<close> returns \<open>2^(-0/0)\<close>, a NaN, which is neither \<open>>= 0\<close> nor
  \<open><= 1\<close>.
\<close>

theorem PredictOne_NaN_on_single_row_fit:
  "Fit counter_rand (New counter_rand [WithTrees 10, WithSeed 42]) [[Fin 1, Fin 2, Fin 3]]
     = Inr single_row_forest \<and>
   PredictOne single_row_forest [Fin 1, Fin 2, Fin 3] = Inr NaN \<and>
   \<not> fle (Fin 0) NaN \<and> \<not> fle NaN (Fin 1)"
  by (simp add: fit_single_row)
     (simp add: single_row_forest_def PredictOne_def predictOne_def averagePathLength_def
      float64_of_int_def fle_def feq_def finf_def eval_nat_numeral)

subsection \<open>Serialization\<close>

lemma gob_rejects_tree_types: "\<not> gobEncodable iTree_fields" "\<not> gobEncodable node_fields"
  by (simp_all add: gobEncodable_def iTree_fields_def node_fields_def isExported_def)

lemma Save_gob_trained: "trained f \<Longrightarrow> Save gob f = Inl SerializationFailed"
  by (simp add: Save_def gob_def gob_rejects_tree_types)

text \<open>
  C1. For every trained forest, \<open>Load(Save(F))\<close> succeeds and predicts as \<open>F\<close> does. The
  code does not get that far: the trees are a \<open>[]*iTree\<close>, and \<open>iTree\<close> (like \<open>node\<close>)
  declares unexported fields only, which gob refuses to encode. On the forest fitted
  from the two rows \<open>[0]\<close>, \<open>[1]\<close>, \<open>Fit\<close> succeeds and \<open>Save\<close> returns the encoder's error
  instead of a blob.
\<close>

theorem Save_fails_on_fitted_forest:
  "Fit counter_rand (New counter_rand [WithTrees 1, WithSampleSize 2]) example_data
     = Inr example_forest \<and>
   trained example_forest \<and>
   Save gob example_forest = Inl SerializationFailed"
  by (simp add: fit_example trained_example Save_gob_trained)

text \<open>
  C4, as amended. \<open>Load\<close> is not atomic on failure: it decodes straight into the fields
  of the receiver, so the fields decoded before the failing one keep their new values.
  What a failed \<open>Load\<close> leaves as it was, for every decoder, is the trained flag and
  \<open>maxDepth\<close>, both assigned only after the last decode has succeeded.
\<close>

theorem Load_failure_keeps_trained_and_maxDepth:
  "Load G f b = (f', Some e) \<Longrightarrow> trained f' = trained f \<and> maxDepth f' = maxDepth f"
  by (auto simp: Load_def Let_def split: sum.splits prod.splits)

theorem Load_failure_keeps_trained_and_maxDepth_witness:
  "Load gob (New counter_rand []) [GobInt 7]
     = ((New counter_rand [])\<lparr>nTrees := 7\<rparr>, Some DeserializationFailed) \<and>
   trained ((New counter_rand [])\<lparr>nTrees := 7\<rparr>) = trained (New counter_rand []) \<and>
   maxDepth ((New counter_rand [])\<lparr>nTrees := 7\<rparr>) = maxDepth (New counter_rand [])"
proof -
  have run: "Load gob (New counter_rand []) [GobInt 7]
               = ((New counter_rand [])\<lparr>nTrees := 7\<rparr>, Some DeserializationFailed)"
    by (simp add: Load_def gob_def Let_def)
  from Load_failure_keeps_trained_and_maxDepth [OF run] run show ?thesis by simp
qed

text \<open>
  C4 as stated fails: a blob that holds a single integer makes \<open>Load\<close> fail at the second
  field, after \<open>nTrees\<close> has been overwritten (100 before the call, 7 after it).
\<close>

theorem Load_not_atomic_counterexample:
  "snd (Load gob (New counter_rand []) [GobInt 7]) = Some DeserializationFailed \<and>
   nTrees (New counter_rand []) = 100 \<and>
   nTrees (fst (Load gob (New counter_rand []) [GobInt 7])) = 7"
  by (simp add: Load_def gob_def New_def Let_def)

subsection \<open>Scoring before training\<close>



subsection \<open>Batch and stream scoring\<close>

text \<open>
  C8. For a trained forest and a batch \<open>B\<close> on whose rows \<open>PredictOne\<close> returns a score
  (rows of the right dimension), \<open>Predict\<close> returns a vector as long as \<open>B\<close> whose i-th
  element is \<open>PredictOne\<close> of the i-th row.
\<close>

theorem Predict_is_PredictOne_pointwise:
  assumes "trained f" and "\<forall>x\<in>set B. \<exists>v. PredictOne f x = Inr v"
  shows "\<exists>scores. Predict f B = Inr scores \<and> length scores = length B \<and>
           (\<forall>i<length B. PredictOne f (B ! i) = Inr (scores ! i))"
  using assms
proof (induction B)
  case Nil
  then show ?case by (simp add: Predict_def)
next
  case (Cons x B)
  from Cons.prems obtain v where v: "PredictOne f x = Inr v" by auto
  from Cons obtain scores where s: "Predict f B = Inr scores" "length scores = length B"
    "\<forall>i<length B. PredictOne f (B ! i) = Inr (scores ! i)" by auto
  from v s(1) Cons.prems(1) have "Predict f (x # B) = Inr (v # scores)"
    by (simp add: Predict_def PredictOne_def)
  moreover have "PredictOne f ((x # B) ! i) = Inr ((v # scores) ! i)" if "i < length (x # B)" for i
    using that v s(3) by (cases i) auto
  ultimately show ?case using s(2) by auto
qed

theorem Predict_is_PredictOne_pointwise_witness:
  "trained example_forest \<and>
   PredictOne example_forest [Fin 0] = Inr (Fin (2 powr - (5000000000 / 772156649))) \<and>
   PredictOne example_forest [Fin 1] = Inr (Fin (2 powr - (5000000000 / 772156649))) \<and>
   Predict example_forest [[Fin 0], [Fin 1]]
     = Inr [Fin (2 powr - (5000000000 / 772156649)), Fin (2 powr - (5000000000 / 772156649))]"
proof -
  have h: "\<forall>x\<in>set [[Fin 0], [Fin 1]]. \<exists>v. PredictOne example_forest x = Inr v"
    by (simp add: PredictOne_example)
  from Predict_is_PredictOne_pointwise [OF trained_example h]
  obtain scores where s: "Predict example_forest [[Fin 0], [Fin 1]] = Inr scores"
    "length scores = 2"
    "\<forall>i<2. PredictOne example_forest ([[Fin 0], [Fin 1]] ! i) = Inr (scores ! i)"
    by auto
  from s(3) [rule_format, of 0] s(3) [rule_format, of 1]
  have "scores ! 0 = Fin (2 powr - (5000000000 / 772156649))"
    "scores ! 1 = Fin (2 powr - (5000000000 / 772156649))"
    by (simp_all add: PredictOne_example)
  with list2 [OF s(2)] have "scores = [Fin (2 powr - (5000000000 / 772156649)), Fin (2 powr - (5000000000 / 772156649))]"
    by simp
  with s(1) trained_example PredictOne_example show ?thesis by simp
qed

lemma streamLoop_all_scored:
  assumes "\<forall>s\<in>set input. \<exists>v. PredictOne f s = Inr v"
  shows "streamLoop f input out =
           (None, out @ map (\<lambda>s. \<lparr>Value = projr (PredictOne f s),
                                     IsAnomaly = fge (projr (PredictOne f s)) (threshold f),
                                     Features = s\<rparr>) input)"
  using assms
proof (induction input arbitrary: out)
  case Nil
  then show ?case by simp
next
  case (Cons s rest)
  from Cons.prems obtain v where v: "PredictOne f s = Inr v" by auto
  from Cons.prems have "\<forall>s\<in>set rest. \<exists>v. PredictOne f s = Inr v" by simp
  from Cons.IH [OF this] v show ?case by simp
qed

text \<open>
  C6. For a trained forest and the samples s1 .. sn delivered on the input channel before
  it is closed (no cancellation, \<open>PredictOne\<close> returning a score on each), \<open>PredictStream\<close>
  returns nil after sending exactly n records in input order, the i-th with
  \<open>Value = PredictOne(si)\<close>, \<open>IsAnomaly = (Value >= threshold)\<close> and the sample as \<open>Features\<close>.
\<close>

theorem PredictStream_scores_in_input_order:
  assumes "trained f" and "\<forall>s\<in>set input. \<exists>v. PredictOne f s = Inr v"
  shows "\<exists>out. PredictStream f input = (None, out) \<and> length out = length input \<and>
           (\<forall>i<length input.
              PredictOne f (input ! i) = Inr (Value (out ! i)) \<and>
              IsAnomaly (out ! i) = fge (Value (out ! i)) (threshold f) \<and>
              Features (out ! i) = input ! i)"
proof -
  let ?mk = "\<lambda>s. \<lparr>Value = projr (PredictOne f s),
                   IsAnomaly = fge (projr (PredictOne f s)) (threshold f), Features = s\<rparr>"
  have run: "PredictStream f input = (None, map ?mk input)"
    using assms(1) streamLoop_all_scored [OF assms(2), of "[]"] by (simp add: PredictStream_def)
  have "PredictOne f (input ! i) = Inr (Value (map ?mk input ! i))" if "i < length input" for i
  proof -
    from that assms(2) obtain v where "PredictOne f (input ! i) = Inr v"
      using nth_mem by blast
    with that show ?thesis by simp
  qed
  with run show ?thesis by simp
qed

theorem PredictStream_scores_in_input_order_witness:
  "trained example_forest \<and>
   PredictOne example_forest [Fin 0] = Inr (Fin (2 powr - (5000000000 / 772156649))) \<and>
   PredictOne example_forest [Fin 1] = Inr (Fin (2 powr - (5000000000 / 772156649))) \<and>
   fst (PredictStream example_forest [[Fin 0], [Fin 1]]) = None \<and>
   map Value (snd (PredictStream example_forest [[Fin 0], [Fin 1]]))
     = [Fin (2 powr - (5000000000 / 772156649)), Fin (2 powr - (5000000000 / 772156649))] \<and>
   map IsAnomaly (snd (PredictStream example_forest [[Fin 0], [Fin 1]])) = [True, True] \<and>
   map Features (snd (PredictStream example_forest [[Fin 0], [Fin 1]])) = [[Fin 0], [Fin 1]]"
proof -
  have h: "\<forall>x\<in>set [[Fin 0], [Fin 1]]. \<exists>v. PredictOne example_forest x = Inr v"
    by (simp add: PredictOne_example)
  from PredictStream_scores_in_input_order [OF trained_example h]
  obtain out where s: "PredictStream example_forest [[Fin 0], [Fin 1]] = (None, out)"
    "length out = 2"
    "\<forall>i<2. PredictOne example_forest ([[Fin 0], [Fin 1]] ! i) = Inr (Value (out ! i)) \<and>
              IsAnomaly (out ! i) = fge (Value (out ! i)) (threshold example_forest) \<and>
              Features (out ! i) = [[Fin 0], [Fin 1]] ! i"
    by auto
  note s0 = s(3) [rule_format, of 0] and s1 = s(3) [rule_format, of 1]
  from s0 s1 have v: "Value (out ! 0) = Fin (2 powr - (5000000000 / 772156649))"
    "Value (out ! 1) = Fin (2 powr - (5000000000 / 772156649))"
    by (simp_all add: PredictOne_example)
  from s0 s1 v have a: "IsAnomaly (out ! 0)" "IsAnomaly (out ! 1)"
    by (simp_all add: example_forest_def fge_def fle_def feq_def)
  from s0 s1 have f: "Features (out ! 0) = [Fin 0]" "Features (out ! 1) = [Fin 1]"
    by simp_all
  have "map Value out = [Value (out ! 0), Value (out ! 1)]"
    "map IsAnomaly out = [IsAnomaly (out ! 0), IsAnomaly (out ! 1)]"
    "map Features out = [Features (out ! 0), Features (out ! 1)]"
    using list2 [OF s(2)] by (metis list.simps(8,9))+
  with v a f s(1) trained_example PredictOne_example show ?thesis by simp
qed

subsection \<open>The order on float64\<close>







lemma fgt_zero: "fgt (Fin c) (Fin 0) = (0 < c)"
  by (simp add: fgt_def)

subsection \<open>The insertion sort of \<open>percentile\<close>\<close>

lemma insertLoop_length [simp]: "length (insertLoop xs j) = length xs"
  by (induction xs j rule: insertLoop.induct) simp_all

lemma insertLoop_mset: "j < length xs \<Longrightarrow> mset (insertLoop xs j) = mset xs"
proof (induction xs j rule: insertLoop.induct)
  case (1 arr)
  then show ?case by simp
next
  case (2 arr j)
  then show ?case by (simp add: mset_swap)
qed

lemma foldl_insertLoop:
  "\<forall>i\<in>set is. i < length xs \<Longrightarrow>
     length (foldl insertLoop xs is) = length xs \<and> mset (foldl insertLoop xs is) = mset xs"
  by (induction "is" arbitrary: xs) (simp_all add: insertLoop_mset)

lemma insertionSort_mset: "mset (insertionSort xs) = mset xs"
  by (simp add: insertionSort_def foldl_insertLoop)

lemma insertionSort_length: "length (insertionSort xs) = length xs"
  by (simp add: insertionSort_def foldl_insertLoop)







lemma percentile_index:
  assumes "data \<noteq> []" and "0 \<le> q" and "q \<le> 100"
  shows "percentile data (Fin q)
           = Inr (insertionSort data ! nat \<lfloor>(real (length data) - 1) * q / 100\<rfloor>)"
    and "nat \<lfloor>(real (length data) - 1) * q / 100\<rfloor> < length data"
proof -
  let ?n = "length data"
  let ?x = "(real ?n - 1) * q / 100"
  from assms(1) have n: "1 \<le> real ?n" by (cases data) simp_all
  with assms have x0: "0 \<le> ?x" by simp
  have "(real ?n - 1) * q \<le> (real ?n - 1) * 100"
    using assms n by (intro mult_left_mono) simp_all
  then have "?x < real ?n" by simp
  with x0 show lt: "nat \<lfloor>?x\<rfloor> < ?n"
    by (simp add: floor_less_iff nat_less_iff) 
  have "of_int (int ?n - 1) = real ?n - 1" by simp
  with x0 lt assms(1) show "percentile data (Fin q) = Inr (insertionSort data ! nat \<lfloor>?x\<rfloor>)"
    by (simp add: percentile_def Let_def float64_of_int_def truncToZero_def insertionSort_length)
qed

text \<open>The sort at work: the 90th percentile of \<open>[3, 1, 2]\<close> is 2 (index \<open>\<lfloor>2 * 0.9\<rfloor> = 1\<close>).\<close>

lemma percentile_example: "percentile [Fin 3, Fin 1, Fin 2] (Fin 90) = Inr (Fin 2)"
  by (simp add: percentile_def insertionSort_def float64_of_int_def truncToZero_def
      eval_nat_numeral upt_rec)

subsection \<open>A forest without trees\<close>

lemma predictOne_no_trees: "trees f = [] \<Longrightarrow> predictOne f x = Inr NaN"
  by (simp add: predictOne_def float64_of_int_def finf_def)

lemma predict_no_trees: "trees f = [] \<Longrightarrow> predict f data = Inr (replicate (length data) NaN)"
  by (induction data) (simp_all add: predictOne_no_trees)

text \<open>
  C10. \<open>New\<close> does not validate its configuration: \<open>WithTrees(0)\<close> is taken as it is, \<open>Fit\<close>
  on any non-empty data then succeeds, marks the forest trained with an empty tree
  slice, and \<open>PredictOne\<close> returns NaN on every sample (the total path length 0 divided
  by zero trees).
\<close>

theorem zero_trees_fit_scores_NaN:
  assumes "data \<noteq> []"
  shows "nTrees (New R [WithTrees 0]) = 0 \<and>
         (\<exists>f'. Fit R (New R [WithTrees 0]) data = Inr f' \<and> trained f' \<and> trees f' = [] \<and>
               (\<forall>x. PredictOne f' x = Inr NaN))"
proof -
  let ?f = "New R [WithTrees 0]"
  let ?psi = "if int (length data) < sampleSize ?f then int (length data) else sampleSize ?f"
  let ?f1 = "?f\<lparr>rng := rng ?f, trees := [], trained := True,
                 avgPathLength := averagePathLength (float64_of_int ?psi)\<rparr>"
  have cfg: "nTrees ?f = 0" "contamination ?f = Fin (1 / 10)"
    by (simp_all add: New_def Let_def)
  have scores: "predict ?f1 data = Inr (replicate (length data) NaN)"
    by (rule predict_no_trees) simp
  have p: "fmul (Fin 100) (fsub (Fin 1) (Fin (1 / 10))) = Fin 90"
    by (simp add: fsub_def)
  have ne: "replicate (length data) NaN \<noteq> []" using assms by simp
  have "set (insertionSort (replicate (length data) NaN)) = set (replicate (length data) NaN)"
    by (rule mset_eq_setD) (rule insertionSort_mset)
  then have "set (insertionSort (replicate (length data) NaN)) = {NaN}"
    using assms by simp
  moreover have "insertionSort (replicate (length data) NaN)
                   ! nat \<lfloor>(real (length (replicate (length data) NaN)) - 1) * 90 / 100\<rfloor>
                 \<in> set (insertionSort (replicate (length data) NaN))"
    using percentile_index(2) [OF ne, of 90] by (intro nth_mem) (simp add: insertionSort_length)
  ultimately have th: "percentile (replicate (length data) NaN) (Fin 90) = Inr NaN"
    using percentile_index(1) [OF ne, of 90] by simp
  have "Fit R ?f data = Inr (?f1\<lparr>threshold := NaN\<rparr>)"
    using assms cfg scores th p
    by (simp add: Fit_def Let_def fgt_zero)
  moreover have "PredictOne (?f1\<lparr>threshold := NaN\<rparr>) x = Inr NaN" for x
    by (simp add: PredictOne_def predictOne_no_trees)
  ultimately show ?thesis using cfg by simp
qed

theorem zero_trees_fit_scores_NaN_witness:
  "[[Fin 1, Fin 2]] \<noteq> ([] :: float64 list list) \<and>
   nTrees (New counter_rand [WithTrees 0]) = 0 \<and>
   Fit counter_rand (New counter_rand [WithTrees 0]) [[Fin 1, Fin 2]] = Inr zero_trees_forest \<and>
   trained zero_trees_forest \<and> trees zero_trees_forest = [] \<and>
   PredictOne zero_trees_forest [Fin 5, Fin 6] = Inr NaN"
proof -
  have ne: "[[Fin 1, Fin 2]] \<noteq> ([] :: float64 list list)" by simp
  from zero_trees_fit_scores_NaN [OF ne, of counter_rand] obtain f' where
    f': "Fit counter_rand (New counter_rand [WithTrees 0]) [[Fin 1, Fin 2]] = Inr f'"
        "trained f'" "trees f' = []" "\<forall>x. PredictOne f' x = Inr NaN"
    and n: "nTrees (New counter_rand [WithTrees 0]) = 0"
    by blast
  from f'(1) have "f' = zero_trees_forest" by (simp add: fit_zero_trees)
  with f' n fit_zero_trees show ?thesis by simp
qed

subsection \<open>What Fit installs\<close>











subsection \<open>The scores of a fitted forest\<close>












subsection \<open>Threshold calibration\<close>













end
